theory Spec2Isabelle
  imports Main
begin

section \<open>The execution service of execution-ws.service.ts\<close>

text \<open>
  The service class \<^verbatim>\<open>ExecutionWsService\<close> talks to three things outside itself: the
  host file system (\<^verbatim>\<open>mkdirSync\<close>, \<^verbatim>\<open>join\<close>), the uuid generator and the Docker engine
  (through dockerode). None of them is code of the service, so the model takes them as a
  record of operations over a world \<open>'w\<close>. An operation that can throw (or whose promise
  can reject) returns \<open>Inl\<close> of the error together with the world it leaves behind.
  Every \<^verbatim>\<open>async\<close> method of the service is a function from the service state to a
  result (\<open>Inl\<close> for a rejected promise) and the new state. The output relay
  (\<^verbatim>\<open>setupContainerOutputListener\<close>) is not part of this development.
\<close>

subsection \<open>Options handed to dockerode\<close>

text \<open>
  \<^verbatim>\<open>container.exec\<close> takes the fields \<^verbatim>\<open>Cmd\<close>, \<^verbatim>\<open>AttachStdin\<close>, \<^verbatim>\<open>AttachStdout\<close>,
  \<^verbatim>\<open>AttachStderr\<close> and \<^verbatim>\<open>Tty\<close>; \<^verbatim>\<open>docker.createContainer\<close> takes the same five
  and more, so the second record extends the first and the field names are those of the
  source. \<^verbatim>\<open>HostConfig\<close> keeps the field the source sets (\<^verbatim>\<open>Runtime\<close>) and the two
  fields through which dockerode makes a host directory visible in a container
  (\<^verbatim>\<open>Binds\<close>, entries \<^verbatim>\<open>host:container\<close>, and \<^verbatim>\<open>Mounts\<close>, pairs of source and
  target); a field the caller leaves out is \<open>None\<close>.
\<close>

record host_config =
  Runtime :: string
  Binds :: "string list option"
  Mounts :: "(string \<times> string) list option"

record exec_options =
  Cmd :: "string list"
  AttachStdin :: bool
  AttachStdout :: bool
  AttachStderr :: bool
  Tty :: bool

record create_options = exec_options +
  Image :: string
  OpenStdin :: bool
  WorkingDir :: string
  HostConfig :: host_config

subsection \<open>The world outside the service\<close>

record ('c, 'ex, 'w, 'x) outside =
  uuidv4 :: "'w \<Rightarrow> string \<times> 'w"
  join :: "string list \<Rightarrow> string"
  mkdirSync :: "string \<Rightarrow> 'w \<Rightarrow> ('x + unit) \<times> 'w"
  createContainer :: "create_options \<Rightarrow> 'w \<Rightarrow> ('x + 'c) \<times> 'w"
  container_start :: "'c \<Rightarrow> 'w \<Rightarrow> ('x + unit) \<times> 'w"
  container_exec :: "'c \<Rightarrow> exec_options \<Rightarrow> 'w \<Rightarrow> ('x + 'ex) \<times> 'w"
  exec_start :: "'ex \<Rightarrow> bool \<Rightarrow> 'w \<Rightarrow> ('x + unit) \<times> 'w"

subsection \<open>The service state\<close>

text \<open>
  The fields of the class: \<^verbatim>\<open>runtime\<close>, \<^verbatim>\<open>pythonImage\<close> and the map
  \<^verbatim>\<open>sessionContainers\<close>. \<open>dirname\<close> is the module's \<^verbatim>\<open>__dirname\<close>, \<open>console\<close> the lines
  written with \<^verbatim>\<open>console.log\<close>, \<open>world\<close> the state of everything outside.
\<close>

record ('c, 'w) service =
  runtime :: string
  pythonImage :: string
  sessionContainers :: "string \<rightharpoonup> 'c"
  dirname :: string
  console :: "string list"
  world :: 'w

text \<open>\<^verbatim>\<open>process.env.X || d\<close>: an unset or empty variable gives the default.\<close>

definition env_or :: "string option \<Rightarrow> string \<Rightarrow> string" where
  "env_or v d = (case v of None \<Rightarrow> d | Some s \<Rightarrow> if s = [] then d else s)"

text \<open>The field initialisers and the constructor (the Docker client is the \<open>outside\<close> record).\<close>

definition new_service :: "(string \<Rightarrow> string option) \<Rightarrow> string \<Rightarrow> 'w \<Rightarrow> ('c, 'w) service" where
  "new_service getenv dir w =
     \<lparr> runtime = env_or (getenv ''DOCKER_RUNTIME'') ''runc'',
       pythonImage = env_or (getenv ''DOCKER_IMAGE_PYTHON'') ''python-interactive'',
       sessionContainers = Map.empty,
       dirname = dir,
       console = [],
       world = w \<rparr>"

subsection \<open>The session registry: registerContainer and getContainer\<close>

definition registerContainer :: "string \<Rightarrow> 'c \<Rightarrow> ('c, 'w) service \<Rightarrow> ('c, 'w) service" where
  "registerContainer sessionId container st =
     st \<lparr> sessionContainers := (sessionContainers st)(sessionId \<mapsto> container),
          console := console st @ [''Registering container for session: '' @ sessionId] \<rparr>"

text \<open>
  \<^verbatim>\<open>getContainer\<close> is \<^verbatim>\<open>async\<close> and has no \<^verbatim>\<open>throw\<close>: its promise resolves with the
  container or with \<^verbatim>\<open>undefined\<close> (\<open>None\<close>).
\<close>

definition getContainer :: "string \<Rightarrow> ('c, 'w) service \<Rightarrow> ('x + 'c option) \<times> ('c, 'w) service" where
  "getContainer sessionId st =
     (let st1 = st \<lparr> console := console st @ [''Retrieving container for session: '' @ sessionId] \<rparr>
      in (Inr (sessionContainers st1 sessionId), st1))"

subsection \<open>Provisioning: startInteractiveSession and startPythonSession\<close>

text \<open>The object literal passed to \<^verbatim>\<open>createContainer\<close>; \<^verbatim>\<open>tempDir\<close> does not occur in it.\<close>

definition session_options :: "string \<Rightarrow> string \<Rightarrow> create_options" where
  "session_options rt img =
     \<lparr> Cmd = [''node'', ''/commandListener/commandListener.js''],
       AttachStdin = True,
       AttachStdout = True,
       AttachStderr = True,
       Tty = True,
       Image = img,
       OpenStdin = True,
       WorkingDir = ''/commandListener'',
       HostConfig = \<lparr> Runtime = rt, Binds = None, Mounts = None \<rparr> \<rparr>"

definition startInteractiveSession ::
  "('c, 'ex, 'w, 'x) outside \<Rightarrow> string \<Rightarrow> string \<Rightarrow> ('c, 'w) service \<Rightarrow> ('x + 'c) \<times> ('c, 'w) service" where
  "startInteractiveSession out img tempDir st =
     (case createContainer out (session_options (runtime st) img) (world st) of
        (Inl e, w1) \<Rightarrow> (Inl e, st \<lparr> world := w1 \<rparr>)
      | (Inr container, w1) \<Rightarrow>
          (case container_start out container w1 of
             (Inl e, w2) \<Rightarrow> (Inl e, st \<lparr> world := w2 \<rparr>)
           | (Inr _, w2) \<Rightarrow> (Inr container, st \<lparr> world := w2 \<rparr>)))"

definition startPythonSession ::
  "('c, 'ex, 'w, 'x) outside \<Rightarrow> ('c, 'w) service \<Rightarrow> ('x + string) \<times> ('c, 'w) service" where
  "startPythonSession out st =
     (case uuidv4 out (world st) of
        (sessionId, w1) \<Rightarrow>
          (let tempDir = join out [dirname st, ''temp'', sessionId] in
           case mkdirSync out tempDir w1 of
             (Inl e, w2) \<Rightarrow> (Inl e, st \<lparr> world := w2 \<rparr>)
           | (Inr _, w2) \<Rightarrow>
               (case startInteractiveSession out (pythonImage st) tempDir (st \<lparr> world := w2 \<rparr>) of
                  (Inl e, st3) \<Rightarrow> (Inl e, st3)
                | (Inr container, st3) \<Rightarrow> (Inr sessionId, registerContainer sessionId container st3))))"

subsection \<open>Command delivery: startProgram, upsertFiles, sendInput\<close>

abbreviation DQ :: char where "DQ \<equiv> CHR 0x22"
abbreviation NL :: char where "NL \<equiv> CHR 0x0A"

definition control_file :: string where
  "control_file = ''/commandListener/commands.txt''"

text \<open>The options every one of the three methods passes to \<^verbatim>\<open>container.exec\<close>.\<close>

definition sh_exec_options :: "string \<Rightarrow> exec_options" where
  "sh_exec_options line =
     \<lparr> Cmd = [''sh'', ''-c'', line],
       AttachStdin = True, AttachStdout = True, AttachStderr = True, Tty = True \<rparr>"

text \<open>
  \<^verbatim>\<open>const exec = await container.exec({...}); await exec.start({ Detach: false })\<close>,
  the tail shared by the three methods.
\<close>

definition exec_line ::
  "('c, 'ex, 'w, 'x) outside \<Rightarrow> 'c \<Rightarrow> string \<Rightarrow> ('c, 'w) service \<Rightarrow> ('x + unit) \<times> ('c, 'w) service" where
  "exec_line out container line st =
     (case container_exec out container (sh_exec_options line) (world st) of
        (Inl e, w1) \<Rightarrow> (Inl e, st \<lparr> world := w1 \<rparr>)
      | (Inr ex, w1) \<Rightarrow>
          (case exec_start out ex False w1 of
             (Inl e, w2) \<Rightarrow> (Inl e, st \<lparr> world := w2 \<rparr>)
           | (Inr _, w2) \<Rightarrow> (Inr (), st \<lparr> world := w2 \<rparr>)))"

definition startProgram_line :: string where
  "startProgram_line = ''echo '' @ [DQ] @ ''run'' @ [DQ] @ '' > /commandListener/commands.txt''"

definition startProgram ::
  "('c, 'ex, 'w, 'x) outside \<Rightarrow> 'c \<Rightarrow> ('c, 'w) service \<Rightarrow> ('x + unit) \<times> ('c, 'w) service" where
  "startProgram out container st = exec_line out container startProgram_line st"

text \<open>
  The loop of \<^verbatim>\<open>upsertFiles\<close> over \<^verbatim>\<open>Object.entries(files)\<close>, the entry list of the
  mapping (its keys are distinct), with \<^verbatim>\<open>commandString\<close> as the accumulator.
\<close>

fun upsert_loop :: "(string \<times> string) list \<Rightarrow> string \<Rightarrow> string" where
  "upsert_loop [] commandString = commandString"
| "upsert_loop ((filename, content) # rest) commandString =
     upsert_loop rest (commandString @ ''upsert '' @ filename @ '' '' @ content @ [NL])"

definition upsertFiles_line :: "(string \<times> string) list \<Rightarrow> string" where
  "upsertFiles_line files =
     ''echo '' @ [DQ] @ upsert_loop files [] @ [DQ] @ '' > /commandListener/commands.txt''"

definition upsertFiles ::
  "('c, 'ex, 'w, 'x) outside \<Rightarrow> 'c \<Rightarrow> (string \<times> string) list \<Rightarrow> ('c, 'w) service
     \<Rightarrow> ('x + unit) \<times> ('c, 'w) service" where
  "upsertFiles out container files st = exec_line out container (upsertFiles_line files) st"

definition sendInput_line :: "string \<Rightarrow> string" where
  "sendInput_line input =
     (let command = ''input '' @ input
      in ''echo '' @ [DQ] @ command @ [DQ] @ '' >> /commandListener/commands.txt'')"

definition sendInput ::
  "('c, 'ex, 'w, 'x) outside \<Rightarrow> 'c \<Rightarrow> string \<Rightarrow> ('c, 'w) service \<Rightarrow> ('x + unit) \<times> ('c, 'w) service" where
  "sendInput out container input st = exec_line out container (sendInput_line input) st"

section \<open>The sandbox: Docker engine and shell\<close>

text \<open>
  What a command line does once it is inside the container is decided by the container's
  \<^verbatim>\<open>sh\<close>, not by the service, and when it is done is decided by the engine. The
  claims about the control file need that meaning, so this section gives two instances of
  \<open>outside\<close> over one world: a Docker engine whose containers hold a file system, with
  the fragment of the POSIX shell command language the service's lines are written in.
  The two engines differ in what the promise of \<^verbatim>\<open>exec.start\<close> means: \<open>docker_sim\<close>
  resolves it when the command has run, \<open>docker_queued\<close> when the command has been
  handed over. Anything outside the shell fragment is answered with \<open>None\<close>
  (\<open>Unmodelled\<close> at the engine): the model then says nothing, it does not guess.
\<close>

subsection \<open>Shell fragment: words, double quotes, redirections, sequences\<close>

text \<open>
  POSIX Shell Command Language 2.2.3: inside double quotes every character stands for
  itself except the dollar sign, the backquote and the backslash; the next double quote
  ends the quotation. Outside quotes a space ends a word, \<^verbatim>\<open>;\<close> ends a command,
  \<^verbatim>\<open>>\<close> and \<^verbatim>\<open>>>\<close> are the output redirections (2.7.2, 2.7.3). Expansions,
  substitutions, escapes, single quotes, pipes, patterns, comments and assignments are
  not in the fragment, nor is a redirection operator glued to a word.
\<close>

abbreviation BSLASH :: char where "BSLASH \<equiv> CHR 0x5C"
abbreviation DOLLAR :: char where "DOLLAR \<equiv> CHR 0x24"
abbreviation BQUOTE :: char where "BQUOTE \<equiv> CHR 0x60"
abbreviation SQUOTE :: char where "SQUOTE \<equiv> CHR 0x27"
abbreviation TAB :: char where "TAB \<equiv> CHR 0x09"

datatype redir_op = Truncate | Append

datatype token = Word string | Redir redir_op | Semi

definition dq_special :: "char \<Rightarrow> bool" where
  "dq_special c = (c = BSLASH \<or> c = DOLLAR \<or> c = BQUOTE)"

definition unquoted_special :: "char \<Rightarrow> bool" where
  "unquoted_special c =
     (dq_special c \<or> c = SQUOTE \<or> c = NL \<or> c = TAB \<or> c \<in> set ''|&()<#*?[]{}~!='')"

definition the_word :: "string option \<Rightarrow> string" where
  "the_word cur = (case cur of None \<Rightarrow> [] | Some w \<Rightarrow> w)"

definition flush :: "string option \<Rightarrow> token list" where
  "flush cur = (case cur of None \<Rightarrow> [] | Some w \<Rightarrow> [Word w])"

text \<open>
  \<open>sh_lex inq cur cs\<close>: \<open>inq\<close> says whether a double quotation is open, \<open>cur\<close> is the
  word being read (\<open>Some []\<close> after an empty quotation: \<^verbatim>\<open>""\<close> is a word), \<open>cs\<close> the
  rest of the line. A quotation still open at the end of the line is a syntax error.
\<close>

fun sh_lex :: "bool \<Rightarrow> string option \<Rightarrow> string \<Rightarrow> token list option" where
  "sh_lex inq cur [] = (if inq then None else Some (flush cur))"
| "sh_lex inq cur (c # cs) =
     (if inq then
        (if c = DQ then sh_lex False cur cs
         else if dq_special c then None
         else sh_lex True (Some (the_word cur @ [c])) cs)
      else if c = DQ then sh_lex True (Some (the_word cur)) cs
      else if c = CHR '' '' then map_option (\<lambda>ts. flush cur @ ts) (sh_lex False None cs)
      else if c = CHR '';'' then map_option (\<lambda>ts. flush cur @ Semi # ts) (sh_lex False None cs)
      else if c = CHR ''>'' then
        (if cur \<noteq> None then None
         else (case cs of
                 [] \<Rightarrow> Some [Redir Truncate]
               | c' # cs' \<Rightarrow>
                   if c' = CHR ''>'' then map_option (\<lambda>ts. Redir Append # ts) (sh_lex False None cs')
                   else map_option (\<lambda>ts. Redir Truncate # ts) (sh_lex False None cs)))
      else if unquoted_special c then None
      else sh_lex False (Some (the_word cur @ [c])) cs)"

record simple_command =
  argv :: "string list"
  redirs :: "(redir_op \<times> string) list"

text \<open>A simple command: words and redirections, each redirection followed by its target.\<close>

fun parse_simple :: "token list \<Rightarrow> simple_command option" where
  "parse_simple [] = Some \<lparr> argv = [], redirs = [] \<rparr>"
| "parse_simple (Word w # ts) = map_option (\<lambda>c. c \<lparr> argv := w # argv c \<rparr>) (parse_simple ts)"
| "parse_simple (Redir opr # Word f # ts) =
     map_option (\<lambda>c. c \<lparr> redirs := (opr, f) # redirs c \<rparr>) (parse_simple ts)"
| "parse_simple _ = None"

text \<open>
  A sequence \<^verbatim>\<open>c1; c2; ...\<close>, \<open>seg\<close> holding the tokens of the command being read. An empty
  command before a \<^verbatim>\<open>;\<close> is a syntax error; a \<^verbatim>\<open>;\<close> at the end is allowed.
\<close>

fun sh_parse :: "token list \<Rightarrow> token list \<Rightarrow> simple_command list option" where
  "sh_parse seg [] = (if seg = [] then Some [] else map_option (\<lambda>c. [c]) (parse_simple seg))"
| "sh_parse seg (Semi # ts) =
     (if seg = [] then None
      else (case parse_simple seg of
              None \<Rightarrow> None
            | Some c \<Rightarrow> map_option (\<lambda>cs. c # cs) (sh_parse [] ts)))"
| "sh_parse seg (t # ts) = sh_parse (seg @ [t]) ts"

definition sh_parse_line :: "string \<Rightarrow> simple_command list option" where
  "sh_parse_line line = (case sh_lex False None line of None \<Rightarrow> None | Some ts \<Rightarrow> sh_parse [] ts)"

subsection \<open>Lines of text\<close>

text \<open>A line of text ends at its newline; the characters after the last newline are a line too.\<close>

fun split_lines :: "string \<Rightarrow> string \<Rightarrow> string list" where
  "split_lines cur [] = (if cur = [] then [] else [cur])"
| "split_lines cur (c # cs) =
     (if c = NL then cur # split_lines [] cs else split_lines (cur @ [c]) cs)"

subsection \<open>Running a command line in a sandbox\<close>

record sandbox =
  config :: create_options
  running :: bool
  fs :: "string \<rightharpoonup> string"

definition file_content :: "sandbox \<Rightarrow> string \<Rightarrow> string" where
  "file_content sb path = (case fs sb path of None \<Rightarrow> [] | Some s \<Rightarrow> s)"

text \<open>\<^verbatim>\<open>> path\<close> replaces the content of the file, \<^verbatim>\<open>>> path\<close> adds to its end.\<close>

definition sh_write :: "redir_op \<Rightarrow> string \<Rightarrow> string \<Rightarrow> sandbox \<Rightarrow> sandbox" where
  "sh_write opr path out sb =
     sb \<lparr> fs := (fs sb)(path \<mapsto> (case opr of Truncate \<Rightarrow> out | Append \<Rightarrow> file_content sb path @ out)) \<rparr>"

fun unwords :: "string list \<Rightarrow> string" where
  "unwords [] = []"
| "unwords [w] = w"
| "unwords (w # ws) = w @ '' '' @ unwords ws"

text \<open>
  \<^verbatim>\<open>echo\<close> writes its operands, separated by single spaces, and a newline. What it does
  with a first operand that starts with \<^verbatim>\<open>-\<close> differs between shells and is left out
  (backslashes never reach it: the lexer refuses them). \<^verbatim>\<open>echo\<close> is the only program of
  the fragment.
\<close>

definition run_simple :: "simple_command \<Rightarrow> sandbox \<Rightarrow> sandbox option" where
  "run_simple c sb =
     (case argv c of
        [] \<Rightarrow> None
      | prog # args \<Rightarrow>
          if prog \<noteq> ''echo'' then None
          else if args \<noteq> [] \<and> take 1 (hd args) = ''-'' then None
          else (case redirs c of
                  [] \<Rightarrow> Some sb
                | [(opr, path)] \<Rightarrow> Some (sh_write opr path (unwords args @ [NL]) sb)
                | _ \<Rightarrow> None))"

fun run_commands :: "simple_command list \<Rightarrow> sandbox \<Rightarrow> sandbox option" where
  "run_commands [] sb = Some sb"
| "run_commands (c # cs) sb =
     (case run_simple c sb of None \<Rightarrow> None | Some sb' \<Rightarrow> run_commands cs sb')"

definition sh_c :: "string \<Rightarrow> sandbox \<Rightarrow> sandbox option" where
  "sh_c line sb = (case sh_parse_line line of None \<Rightarrow> None | Some cs \<Rightarrow> run_commands cs sb)"


subsection \<open>The engines\<close>

datatype engine_error = NoSuchImage | NoSuchContainer | NotRunning | NoSuchExec | Unmodelled

text \<open>
  A container handle is the index of its sandbox, an exec handle the index of its entry
  in \<open>execs\<close> (the container and the options it was created with). \<open>pending\<close> holds the
  execs that have been started and whose command has not run yet, \<open>uuids\<close> the
  identifiers the generator will draw, \<open>dirs\<close> the host directories made so far.
\<close>

record docker_world =
  images :: "string list"
  containers :: "sandbox list"
  execs :: "(nat \<times> exec_options) list"
  pending :: "nat list"
  dirs :: "string list"
  uuids :: "string list"

definition sim_uuidv4 :: "docker_world \<Rightarrow> string \<times> docker_world" where
  "sim_uuidv4 w = (case uuids w of [] \<Rightarrow> ([], w) | u # us \<Rightarrow> (u, w \<lparr> uuids := us \<rparr>))"

fun sim_join :: "string list \<Rightarrow> string" where
  "sim_join [] = ''.''"
| "sim_join [p] = p"
| "sim_join (p # ps) = p @ ''/'' @ sim_join ps"

definition sim_mkdirSync :: "string \<Rightarrow> docker_world \<Rightarrow> (engine_error + unit) \<times> docker_world" where
  "sim_mkdirSync path w = (Inr (), w \<lparr> dirs := dirs w @ [path] \<rparr>)"

definition sim_createContainer :: "create_options \<Rightarrow> docker_world \<Rightarrow> (engine_error + nat) \<times> docker_world" where
  "sim_createContainer opts w =
     (if Image opts \<notin> set (images w) then (Inl NoSuchImage, w)
      else (Inr (length (containers w)),
            w \<lparr> containers := containers w @
                  [\<lparr> config = opts, running = False, fs = Map.empty \<rparr>] \<rparr>))"

definition sim_start :: "nat \<Rightarrow> docker_world \<Rightarrow> (engine_error + unit) \<times> docker_world" where
  "sim_start c w =
     (if c < length (containers w)
      then (Inr (), w \<lparr> containers := (containers w)[c := (containers w ! c) \<lparr> running := True \<rparr>] \<rparr>)
      else (Inl NoSuchContainer, w))"

definition sim_exec :: "nat \<Rightarrow> exec_options \<Rightarrow> docker_world \<Rightarrow> (engine_error + nat) \<times> docker_world" where
  "sim_exec c opts w =
     (if \<not> c < length (containers w) then (Inl NoSuchContainer, w)
      else if \<not> running (containers w ! c) then (Inl NotRunning, w)
      else (Inr (length (execs w)), w \<lparr> execs := execs w @ [(c, opts)] \<rparr>))"

text \<open>
  \<open>sim_exec_start\<close> is \<^verbatim>\<open>exec.start\<close> of an engine that resolves the promise when the
  command has run to its end: the command's effect is in the container when the call
  returns. That is a property of this engine, not of the service, which awaits the promise
  and nothing else; it is used for what one command writes, never for when. Only
  \<^verbatim>\<open>sh -c line\<close>, attached (\<^verbatim>\<open>Detach: false\<close>), is modelled.
\<close>

definition sim_exec_start :: "nat \<Rightarrow> bool \<Rightarrow> docker_world \<Rightarrow> (engine_error + unit) \<times> docker_world" where
  "sim_exec_start ex detach w =
     (if \<not> ex < length (execs w) then (Inl NoSuchExec, w)
      else (case execs w ! ex of
              (c, opts) \<Rightarrow>
                if detach \<or> \<not> c < length (containers w) then (Inl Unmodelled, w)
                else (case Cmd opts of
                        [sh, flag, line] \<Rightarrow>
                          if sh = ''sh'' \<and> flag = ''-c'' then
                            (case sh_c line (containers w ! c) of
                               None \<Rightarrow> (Inl Unmodelled, w)
                             | Some sb \<Rightarrow> (Inr (), w \<lparr> containers := (containers w)[c := sb] \<rparr>))
                          else (Inl Unmodelled, w)
                      | _ \<Rightarrow> (Inl Unmodelled, w))))"

definition docker_sim :: "(nat, nat, docker_world, engine_error) outside" where
  "docker_sim =
     \<lparr> uuidv4 = sim_uuidv4, join = sim_join, mkdirSync = sim_mkdirSync,
       createContainer = sim_createContainer, container_start = sim_start,
       container_exec = sim_exec, exec_start = sim_exec_start \<rparr>"

text \<open>
  \<open>queued_exec_start\<close> is \<^verbatim>\<open>exec.start\<close> of an engine that resolves the promise as soon
  as the exec has been started, as a client does that hands back the output stream of
  the exec for its caller to read: the command is only noted in \<open>pending\<close>. The engine
  runs it later, in a step of its own, \<open>run_pending\<close>.
\<close>

definition queued_exec_start :: "nat \<Rightarrow> bool \<Rightarrow> docker_world \<Rightarrow> (engine_error + unit) \<times> docker_world" where
  "queued_exec_start ex detach w =
     (if \<not> ex < length (execs w) then (Inl NoSuchExec, w)
      else (Inr (), w \<lparr> pending := pending w @ [ex] \<rparr>))"

definition docker_queued :: "(nat, nat, docker_world, engine_error) outside" where
  "docker_queued = docker_sim \<lparr> exec_start := queued_exec_start \<rparr>"

definition run_pending :: "docker_world \<Rightarrow> (engine_error + unit) \<times> docker_world" where
  "run_pending w =
     (case pending w of
        [] \<Rightarrow> (Inr (), w)
      | ex # rest \<Rightarrow> sim_exec_start ex False (w \<lparr> pending := rest \<rparr>))"

section \<open>The registry and the provisioning the specification describes\<close>

text \<open>
  The specification gives the registry two operations that can fail. They are written
  here from its words, to be compared with \<open>registerContainer\<close> and \<open>getContainer\<close>:
  register fails with \<^verbatim>\<open>DuplicateSession\<close> if the id is already bound, resolve returns the
  bound sandbox or fails with \<^verbatim>\<open>UnknownSession\<close>.
\<close>

datatype registry_error = DuplicateSession | UnknownSession

definition spec_register :: "string \<Rightarrow> 'c \<Rightarrow> (string \<rightharpoonup> 'c) \<Rightarrow> registry_error + (string \<rightharpoonup> 'c)" where
  "spec_register sid c reg = (if reg sid \<noteq> None then Inl DuplicateSession else Inr (reg(sid \<mapsto> c)))"

definition spec_resolve :: "string \<Rightarrow> (string \<rightharpoonup> 'c) \<Rightarrow> registry_error + 'c" where
  "spec_resolve sid reg = (case reg sid of None \<Rightarrow> Inl UnknownSession | Some c \<Rightarrow> Inr c)"

text \<open>
  A host directory is visible in a container when a bind names it before the colon, or a
  mount has it as its source.
\<close>

definition mounts_dir :: "create_options \<Rightarrow> string \<Rightarrow> bool" where
  "mounts_dir opts dir =
     ((case Binds (HostConfig opts) of
         None \<Rightarrow> False
       | Some bs \<Rightarrow> list_ex (\<lambda>b. takeWhile (\<lambda>c. c \<noteq> CHR '':'') b = dir) bs)
      \<or> (case Mounts (HostConfig opts) of
            None \<Rightarrow> False
          | Some ms \<Rightarrow> list_ex (\<lambda>m. fst m = dir) ms))"

section \<open>Example states\<close>

text \<open>
  A host that has the Python image and no container yet, and the service as its
  constructor leaves it with no environment variable set.
\<close>

definition example_world :: docker_world where
  "example_world =
     \<lparr> images = [''python-interactive''], containers = [], execs = [], pending = [], dirs = [],
       uuids = [''s1'', ''s2''] \<rparr>"

definition example_service :: "(nat, docker_world) service" where
  "example_service = new_service (\<lambda>v. None) ''/app'' example_world"

definition bound_service :: "(nat, docker_world) service" where
  "bound_service = registerContainer ''s1'' 1 example_service"

text \<open>A host without the image, and an engine whose containers never start.\<close>

definition noimage_world :: docker_world where
  "noimage_world = example_world \<lparr> images := [] \<rparr>"

definition stuck_engine :: "(nat, nat, docker_world, engine_error) outside" where
  "stuck_engine = docker_sim \<lparr> container_start := (\<lambda>c w. (Inl NotRunning, w)) \<rparr>"

section \<open>Records and payloads\<close>

text \<open>
  The encoders as the specification words them, to be compared with the strings the
  methods build: \<^verbatim>\<open>upsert(filename, content) -> "upsert <filename> <content>"\<close>,
  \<^verbatim>\<open>run() -> "run"\<close>, \<^verbatim>\<open>sendInput(text) -> "input <text>"\<close>, and several files as
  several records, each ended by a newline.
\<close>

definition spec_upsert :: "string \<Rightarrow> string \<Rightarrow> string" where
  "spec_upsert filename content = ''upsert '' @ filename @ '' '' @ content"

definition spec_run :: string where
  "spec_run = ''run''"

definition spec_sendInput :: "string \<Rightarrow> string" where
  "spec_sendInput text = ''input '' @ text"

definition spec_upserts :: "(string \<times> string) list \<Rightarrow> string" where
  "spec_upserts entries = concat (map (\<lambda>(filename, content). spec_upsert filename content @ [NL]) entries)"

text \<open>
  A payload is shell-safe when it has none of the four characters that mean something
  inside double quotes, and one line when it has no newline.
\<close>

definition shell_safe :: "string \<Rightarrow> bool" where
  "shell_safe t = list_all (\<lambda>c. c \<noteq> DQ \<and> \<not> dq_special c) t"

definition one_line :: "string \<Rightarrow> bool" where
  "one_line t = list_all (\<lambda>c. c \<noteq> NL) t"

definition safe_entries :: "(string \<times> string) list \<Rightarrow> bool" where
  "safe_entries entries = list_all (\<lambda>(filename, content). shell_safe filename \<and> shell_safe content) entries"

subsection \<open>A client that issues commands one after the other\<close>





subsection \<open>Watching the calls an engine receives\<close>





subsection \<open>Sessions on the reference engine\<close>

definition the_sandbox :: "('c, docker_world) service \<Rightarrow> nat \<Rightarrow> sandbox" where
  "the_sandbox st c = containers (world st) ! c"

definition live :: "('c, docker_world) service \<Rightarrow> nat \<Rightarrow> bool" where
  "live st c = (c < length (containers (world st)) \<and> running (containers (world st) ! c))"

text \<open>
  \<open>fresh_service\<close> is the service right after \<^verbatim>\<open>startPythonSession\<close> on the example host;
  in \<open>session_service\<close> the program of that session has been started, so the control
  file holds one record, \<^verbatim>\<open>run\<close>.
\<close>

definition fresh_world :: docker_world where
  "fresh_world =
     \<lparr> images = [''python-interactive''],
       containers =
         [\<lparr> config = session_options ''runc'' ''python-interactive'', running = True,
            fs = Map.empty \<rparr>],
       execs = [], pending = [], dirs = [''/app/temp/s1''], uuids = [''s2''] \<rparr>"

definition fresh_service :: "(nat, docker_world) service" where
  "fresh_service = (registerContainer ''s1'' 0 example_service) \<lparr> world := fresh_world \<rparr>"

definition session_world :: docker_world where
  "session_world =
     \<lparr> images = [''python-interactive''],
       containers =
         [\<lparr> config = session_options ''runc'' ''python-interactive'', running = True,
            fs = [control_file \<mapsto> ''run'' @ [NL]] \<rparr>],
       execs = [], pending = [], dirs = [''/app/temp/s1''], uuids = [''s2''] \<rparr>"

definition session_service :: "(nat, docker_world) service" where
  "session_service = (registerContainer ''s1'' 0 example_service) \<lparr> world := session_world \<rparr>"

text \<open>
  Two input texts, one that closes the quotation and redirects into the control file and
  one that closes the quotation and adds a second command; and a mapping with one Python
  file whose content has double quotes in it, \<^verbatim>\<open>{main.py: print("hi")}\<close>.
\<close>

definition overwrite_text :: string where
  "overwrite_text = ''x'' @ [DQ] @ '' > /commandListener/commands.txt; echo '' @ [DQ] @ ''y''"

definition inject_text :: string where
  "inject_text = ''x'' @ [DQ] @ ''; echo '' @ [DQ] @ ''run''"

definition quote_entries :: "(string \<times> string) list" where
  "quote_entries = [(''main.py'', ''print('' @ [DQ] @ ''hi'' @ [DQ] @ '')'')]"


section \<open>The session registry\<close>

text \<open>
  C3, as the specification states it: registering a sandbox under an id that is already
  bound fails with DuplicateSession and leaves the existing binding unchanged. The code
  has no such check: \<^verbatim>\<open>registerContainer\<close> is \<^verbatim>\<open>Map.set\<close>. With \<^verbatim>\<open>s1\<close> bound to container
  1, the specification's register refuses container 2; the code's accepts it, and \<^verbatim>\<open>s1\<close>
  is bound to container 2 afterwards.
\<close>

theorem registerContainer_duplicate_counterexample:
  "sessionContainers bound_service ''s1'' = Some 1
   \<and> spec_register ''s1'' 2 (sessionContainers bound_service) = Inl DuplicateSession
   \<and> sessionContainers (registerContainer ''s1'' 2 bound_service) ''s1'' = Some 2
   \<and> sessionContainers (registerContainer ''s1'' 2 bound_service) ''s1''
       \<noteq> sessionContainers bound_service ''s1''"
  by (simp add: bound_service_def registerContainer_def spec_register_def)

text \<open>
  C3, amended: registering never fails. It binds the id to the given sandbox whether or
  not the id was bound before, so of two registrations under one id the later one
  stands; the bindings of all other ids and the world outside are unchanged.
\<close>

theorem registerContainer_rebinds:
  "sessionContainers (registerContainer sid c st) = (sessionContainers st)(sid \<mapsto> c)
   \<and> sessionContainers (registerContainer sid c2 (registerContainer sid c1 st))
       = sessionContainers (registerContainer sid c2 st)
   \<and> world (registerContainer sid c st) = world st"
  by (simp add: registerContainer_def)

text \<open>
  C4, as the specification states it: resolving an id that was never registered fails
  with UnknownSession. \<^verbatim>\<open>getContainer\<close> does not fail: for an id the map does not hold
  its promise resolves, with \<^verbatim>\<open>undefined\<close>.
\<close>

theorem getContainer_unknown_counterexample:
  "sessionContainers example_service ''ghost'' = None
   \<and> spec_resolve ''ghost'' (sessionContainers example_service) = Inl UnknownSession
   \<and> fst (getContainer ''ghost'' example_service) = (Inr None :: registry_error + nat option)"
  by (simp add: example_service_def new_service_def getContainer_def spec_resolve_def)

text \<open>
  C4, amended: resolving an id that is not registered does not fail, it returns
  \<^verbatim>\<open>undefined\<close>; resolving immediately after \<^verbatim>\<open>register(id, s)\<close> returns exactly \<^verbatim>\<open>s\<close>;
  resolving changes no binding.
\<close>

theorem getContainer_resolves:
  "(sessionContainers st sid = None \<longrightarrow>
      fst (getContainer sid st :: ('x + 'c option) \<times> ('c, 'w) service) = Inr None)
   \<and> fst (getContainer sid (registerContainer sid c st) :: ('x + 'c option) \<times> ('c, 'w) service)
       = Inr (Some c)
   \<and> sessionContainers (snd (getContainer sid st :: ('x + 'c option) \<times> ('c, 'w) service))
       = sessionContainers st"
  by (simp add: getContainer_def registerContainer_def Let_def)

theorem getContainer_resolves_witness:
  "sessionContainers example_service ''ghost'' = None
   \<and> fst (getContainer ''ghost'' example_service :: (registry_error + nat option) \<times> (nat, docker_world) service) = Inr None
   \<and> fst (getContainer ''s1'' (registerContainer ''s1'' 7 example_service)
          :: (registry_error + nat option) \<times> (nat, docker_world) service) = Inr (Some 7)"
  using getContainer_resolves [of example_service "''ghost''" 7, where ?'x = registry_error]
    getContainer_resolves [of example_service "''s1''" 7, where ?'x = registry_error]
  by (simp add: example_service_def new_service_def)

section \<open>Provisioning\<close>

lemma startInteractiveSession_registry:
  "sessionContainers (snd (startInteractiveSession out img tempDir st)) = sessionContainers st"
  by (simp add: startInteractiveSession_def split: prod.splits sum.splits)

lemma startInteractiveSession_sim:
  "img \<in> set (images (world st)) \<Longrightarrow>
   startInteractiveSession docker_sim img tempDir st =
     (Inr (length (containers (world st))),
      st \<lparr> world := (world st) \<lparr> containers := containers (world st) @
              [\<lparr> config = session_options (runtime st) img, running = True,
                 fs = Map.empty \<rparr>] \<rparr> \<rparr>)"
  by (simp add: startInteractiveSession_def docker_sim_def sim_createContainer_def sim_start_def
      nth_append session_options_def)

text \<open>
  C5, as the specification states it: provisioning makes the workspace directory visible
  inside the sandbox at a fixed mount point, and fails with a ProvisionError that wraps
  the engine's error. The options \<^verbatim>\<open>startInteractiveSession\<close> passes to the engine hold
  no bind and no mount, and \<^verbatim>\<open>tempDir\<close> is a parameter the method never reads: on the
  reference engine the container made for the workspace \<^verbatim>\<open>/app/temp/s1\<close> does not have
  that directory. And on a host without the image the method rejects with the very error
  the engine gave, not with an error of its own around it.
\<close>

theorem startInteractiveSession_mount_counterexample:
  "fst (startInteractiveSession docker_sim ''python-interactive'' ''/app/temp/s1'' example_service) = Inr 0
   \<and> \<not> mounts_dir
        (config (the_sandbox (snd (startInteractiveSession docker_sim ''python-interactive''
                                    ''/app/temp/s1'' example_service)) 0))
        ''/app/temp/s1''
   \<and> fst (createContainer docker_sim (session_options ''runc'' ''python-interactive'') noimage_world)
        = Inl NoSuchImage
   \<and> fst (startInteractiveSession docker_sim ''python-interactive'' ''/app/temp/s1''
          (example_service \<lparr> world := noimage_world \<rparr>)) = Inl NoSuchImage"
  by (simp add: startInteractiveSession_sim startInteractiveSession_def example_service_def
      new_service_def example_world_def noimage_world_def session_options_def mounts_dir_def
      the_sandbox_def docker_sim_def sim_createContainer_def sim_start_def env_or_def)

text \<open>
  C5, amended: for every image name and workspace directory, provisioning configures the
  sandbox with the given image, the fixed listener entry command
  \<^verbatim>\<open>node /commandListener/commandListener.js\<close>, an interactive terminal with stdin open
  and attached (stdout and stderr attached as well), the working directory
  \<^verbatim>\<open>/commandListener\<close> and the configured runtime, and starts it; it fails with the
  engine's own error, passed on as it is, if creation fails or if the start fails. (What
  becomes of the workspace directory is left out.) The configuration is read off the
  reference engine, which keeps the options of every container it makes; the failures
  hold for every engine.
\<close>

theorem startInteractiveSession_provisions:
  "(img \<in> set (images (world st)) \<longrightarrow>
      fst (startInteractiveSession docker_sim img tempDir st) = Inr (length (containers (world st)))
      \<and> length (containers (world (snd (startInteractiveSession docker_sim img tempDir st))))
          = Suc (length (containers (world st)))
      \<and> Image (config (the_sandbox (snd (startInteractiveSession docker_sim img tempDir st))
            (length (containers (world st))))) = img
      \<and> Cmd (config (the_sandbox (snd (startInteractiveSession docker_sim img tempDir st))
            (length (containers (world st))))) = [''node'', ''/commandListener/commandListener.js'']
      \<and> Tty (config (the_sandbox (snd (startInteractiveSession docker_sim img tempDir st))
            (length (containers (world st)))))
      \<and> OpenStdin (config (the_sandbox (snd (startInteractiveSession docker_sim img tempDir st))
            (length (containers (world st)))))
      \<and> AttachStdin (config (the_sandbox (snd (startInteractiveSession docker_sim img tempDir st))
            (length (containers (world st)))))
      \<and> AttachStdout (config (the_sandbox (snd (startInteractiveSession docker_sim img tempDir st))
            (length (containers (world st)))))
      \<and> AttachStderr (config (the_sandbox (snd (startInteractiveSession docker_sim img tempDir st))
            (length (containers (world st)))))
      \<and> WorkingDir (config (the_sandbox (snd (startInteractiveSession docker_sim img tempDir st))
            (length (containers (world st))))) = ''/commandListener''
      \<and> Runtime (HostConfig (config (the_sandbox (snd (startInteractiveSession docker_sim img tempDir st))
            (length (containers (world st)))))) = runtime st
      \<and> running (the_sandbox (snd (startInteractiveSession docker_sim img tempDir st))
            (length (containers (world st)))))
   \<and> (fst (createContainer out (session_options (runtime st') img') (world st')) = Inl e \<longrightarrow>
        fst (startInteractiveSession out img' tempDir' st') = Inl e)
   \<and> (createContainer out (session_options (runtime st') img') (world st') = (Inr c, w1)
        \<and> fst (container_start out c w1) = Inl e \<longrightarrow>
        fst (startInteractiveSession out img' tempDir' st') = Inl e)"
proof (intro conjI impI)
  assume "fst (createContainer out (session_options (runtime st') img') (world st')) = Inl e"
  then show "fst (startInteractiveSession out img' tempDir' st') = Inl e"
    by (cases "createContainer out (session_options (runtime st') img') (world st')")
      (simp add: startInteractiveSession_def)
next
  assume "createContainer out (session_options (runtime st') img') (world st') = (Inr c, w1)
        \<and> fst (container_start out c w1) = Inl e"
  then show "fst (startInteractiveSession out img' tempDir' st') = Inl e"
    by (cases "container_start out c w1") (simp add: startInteractiveSession_def)
qed (simp_all add: startInteractiveSession_sim the_sandbox_def session_options_def)

theorem startInteractiveSession_provisions_witness:
  "''python-interactive'' \<in> set (images (world example_service))
   \<and> fst (startInteractiveSession docker_sim ''python-interactive'' ''/app/temp/s1'' example_service) = Inr 0
   \<and> running (the_sandbox (snd (startInteractiveSession docker_sim ''python-interactive''
         ''/app/temp/s1'' example_service)) 0)
   \<and> Image (config (the_sandbox (snd (startInteractiveSession docker_sim ''python-interactive''
         ''/app/temp/s1'' example_service)) 0)) = ''python-interactive''
   \<and> fst (createContainer docker_sim (session_options ''runc'' ''python-interactive'') noimage_world)
        = Inl NoSuchImage
   \<and> fst (startInteractiveSession docker_sim ''python-interactive'' ''/app/temp/s1''
          (example_service \<lparr> world := noimage_world \<rparr>)) = Inl NoSuchImage
   \<and> createContainer stuck_engine (session_options ''runc'' ''python-interactive'') example_world
        = (Inr 0, example_world \<lparr> containers :=
             [\<lparr> config = session_options ''runc'' ''python-interactive'', running = False,
                fs = Map.empty \<rparr>] \<rparr>)
   \<and> fst (startInteractiveSession stuck_engine ''python-interactive'' ''/app/temp/s1'' example_service)
        = Inl NotRunning"
proof -
  let ?W = "example_world \<lparr> containers :=
             [\<lparr> config = session_options ''runc'' ''python-interactive'', running = False,
                fs = Map.empty \<rparr>] \<rparr>"
  have h1: "''python-interactive'' \<in> set (images (world example_service))"
    by (simp add: example_service_def new_service_def example_world_def)
  have h2: "fst (createContainer docker_sim
                  (session_options (runtime (example_service \<lparr> world := noimage_world \<rparr>))
                     ''python-interactive'')
                  (world (example_service \<lparr> world := noimage_world \<rparr>))) = Inl NoSuchImage"
    by (simp add: docker_sim_def sim_createContainer_def noimage_world_def example_world_def
        session_options_def)
  have h3: "createContainer stuck_engine
              (session_options (runtime example_service) ''python-interactive'')
              (world example_service) = (Inr 0, ?W)
            \<and> fst (container_start stuck_engine 0 ?W) = Inl NotRunning"
    by (simp add: stuck_engine_def docker_sim_def sim_createContainer_def example_service_def
        new_service_def example_world_def session_options_def env_or_def)
  have rt: "runtime example_service = ''runc''" "world example_service = example_world"
    "containers example_world = []"
    by (simp_all add: example_service_def new_service_def example_world_def env_or_def)
  note t1 = startInteractiveSession_provisions
    [where img = "''python-interactive''" and st = example_service and tempDir = "''/app/temp/s1''"
       and out = docker_sim and st' = "example_service \<lparr> world := noimage_world \<rparr>"
       and img' = "''python-interactive''" and e = NoSuchImage and tempDir' = "''/app/temp/s1''"]
  note t2 = startInteractiveSession_provisions
    [where img = "''python-interactive''" and st = example_service and tempDir = "''/app/temp/s1''"
       and out = stuck_engine and st' = example_service
       and img' = "''python-interactive''" and e = NotRunning and tempDir' = "''/app/temp/s1''"
       and c = 0 and ?w1.0 = ?W]
  have c1: "fst (startInteractiveSession docker_sim ''python-interactive'' ''/app/temp/s1''
                  example_service) = Inr 0"
    and c2: "running (the_sandbox (snd (startInteractiveSession docker_sim ''python-interactive''
                ''/app/temp/s1'' example_service)) 0)"
    and c2': "Image (config (the_sandbox (snd (startInteractiveSession docker_sim ''python-interactive''
         ''/app/temp/s1'' example_service)) 0)) = ''python-interactive''"
    using t1 h1 by (simp_all add: rt)
  have c3: "fst (startInteractiveSession docker_sim ''python-interactive'' ''/app/temp/s1''
          (example_service \<lparr> world := noimage_world \<rparr>)) = Inl NoSuchImage"
    using t1 h2 by blast
  have c4: "fst (startInteractiveSession stuck_engine ''python-interactive'' ''/app/temp/s1''
                  example_service) = Inl NotRunning"
    using t2 h3 by blast
  from h1 h2 h3 c1 c2 c2' c3 c4 show ?thesis by (simp add: rt)
qed

text \<open>
  C6: if provisioning fails during session creation (the engine fails to create or to
  start the sandbox), \<^verbatim>\<open>startPythonSession\<close> surfaces the provisioning error to its
  caller and never registers the session id: the registry is what it was. The hypotheses
  name the run up to the failure: the id drawn, the directory made, provisioning
  rejected with \<open>e\<close>. The engine is arbitrary.
\<close>

theorem startPythonSession_provision_failure:
  assumes "uuidv4 out (world st) = (sid, w1)"
    and "mkdirSync out (join out [dirname st, ''temp'', sid]) w1 = (Inr u, w2)"
    and "fst (startInteractiveSession out (pythonImage st) (join out [dirname st, ''temp'', sid])
               (st \<lparr> world := w2 \<rparr>)) = Inl e"
  shows "fst (startPythonSession out st) = Inl e
         \<and> sessionContainers (snd (startPythonSession out st)) = sessionContainers st"
proof -
  let ?r = "startInteractiveSession out (pythonImage st) (join out [dirname st, ''temp'', sid])
              (st \<lparr> world := w2 \<rparr>)"
  have reg: "sessionContainers (snd ?r) = sessionContainers st"
    by (simp add: startInteractiveSession_registry)
  obtain st3 where r: "?r = (Inl e, st3)"
    using assms(3) by (cases ?r) auto
  have "startPythonSession out st = (Inl e, st3)"
    using assms(1,2) r by (simp add: startPythonSession_def)
  with reg r show ?thesis by simp
qed

theorem startPythonSession_provision_failure_witness:
  "fst (startPythonSession docker_sim (example_service \<lparr> world := noimage_world \<rparr>)) = Inl NoSuchImage
   \<and> sessionContainers (snd (startPythonSession docker_sim (example_service \<lparr> world := noimage_world \<rparr>)))
       = sessionContainers (example_service \<lparr> world := noimage_world \<rparr>)
   \<and> dom (sessionContainers (example_service \<lparr> world := noimage_world \<rparr>)) = {}"
proof -
  let ?st = "example_service \<lparr> world := noimage_world \<rparr>"
  let ?w1 = "noimage_world \<lparr> uuids := [''s2''] \<rparr>"
  let ?w2 = "?w1 \<lparr> dirs := [''/app/temp/s1''] \<rparr>"
  have a: "uuidv4 docker_sim (world ?st) = (''s1'', ?w1)"
    by (simp add: docker_sim_def sim_uuidv4_def noimage_world_def example_world_def)
  have b: "mkdirSync docker_sim (join docker_sim [dirname ?st, ''temp'', ''s1'']) ?w1 = (Inr (), ?w2)"
    by (simp add: docker_sim_def sim_mkdirSync_def noimage_world_def example_world_def
        example_service_def new_service_def)
  have c: "fst (startInteractiveSession docker_sim (pythonImage ?st)
                 (join docker_sim [dirname ?st, ''temp'', ''s1'']) (?st \<lparr> world := ?w2 \<rparr>))
           = Inl NoSuchImage"
    by (simp add: startInteractiveSession_def docker_sim_def sim_createContainer_def
        noimage_world_def example_world_def)
  have "dom (sessionContainers ?st) = {}"
    by (simp add: example_service_def new_service_def)
  with startPythonSession_provision_failure [OF a b c] show ?thesis by simp
qed

section \<open>The shell fragment on the lines the service writes\<close>

text \<open>Inside a quotation a shell-safe text is read as it stands.\<close>

lemma sh_lex_quoted:
  "shell_safe t \<Longrightarrow> sh_lex True (Some w) (t @ rest) = sh_lex True (Some (w @ t)) rest"
proof (induction t arbitrary: w)
  case Nil
  then show ?case by simp
next
  case (Cons c t)
  then have "shell_safe t" "c \<noteq> DQ" "\<not> dq_special c"
    by (simp_all add: shell_safe_def)
  with Cons.IH [of "w @ [c]"] show ?case
    by (simp add: the_word_def)
qed

lemma sh_lex_tail_truncate:
  "sh_lex False cur '' > /commandListener/commands.txt''
     = Some (flush cur @ [Redir Truncate, Word control_file])"
  by (simp add: the_word_def flush_def unquoted_special_def dq_special_def control_file_def)

lemma sh_lex_tail_append:
  "sh_lex False cur '' >> /commandListener/commands.txt''
     = Some (flush cur @ [Redir Append, Word control_file])"
  by (simp add: the_word_def flush_def unquoted_special_def dq_special_def control_file_def)

lemma sh_lex_echo:
  assumes "shell_safe t"
  shows "sh_lex False None
           (CHR ''e'' # CHR ''c'' # CHR ''h'' # CHR ''o'' # CHR '' '' # DQ # t @ DQ # tail)
           = map_option (\<lambda>ts. Word ''echo'' # ts) (sh_lex False (Some t) tail)"
proof -
  have app: "(@) [Word ''echo''] = (#) (Word ''echo'')"
    by (rule ext) simp
  have "sh_lex False None
          (CHR ''e'' # CHR ''c'' # CHR ''h'' # CHR ''o'' # CHR '' '' # DQ # t @ DQ # tail)
          = map_option (\<lambda>ts. Word ''echo'' # ts) (sh_lex True (Some []) (t @ DQ # tail))"
    by (simp add: the_word_def flush_def unquoted_special_def dq_special_def app)
  also have "sh_lex True (Some []) (t @ DQ # tail) = sh_lex True (Some t) (DQ # tail)"
    using sh_lex_quoted [OF assms, of "[]" "DQ # tail"] by simp
  also have "\<dots> = sh_lex False (Some t) tail"
    by simp
  finally show ?thesis .
qed

declare sh_lex.simps [simp del]

lemma sh_parse_line_echo_truncate:
  "shell_safe t \<Longrightarrow>
   line = ''echo '' @ [DQ] @ t @ [DQ] @ '' > /commandListener/commands.txt'' \<Longrightarrow>
   sh_parse_line line = Some [\<lparr> argv = [''echo'', t], redirs = [(Truncate, control_file)] \<rparr>]"
  by (simp add: sh_parse_line_def sh_lex_echo sh_lex_tail_truncate flush_def)

lemma sh_parse_line_echo_append:
  "shell_safe t \<Longrightarrow>
   line = ''echo '' @ [DQ] @ t @ [DQ] @ '' >> /commandListener/commands.txt'' \<Longrightarrow>
   sh_parse_line line = Some [\<lparr> argv = [''echo'', t], redirs = [(Append, control_file)] \<rparr>]"
  by (simp add: sh_parse_line_def sh_lex_echo sh_lex_tail_append flush_def)

lemma sh_c_echo_truncate:
  "shell_safe t \<Longrightarrow> take 1 t \<noteq> ''-'' \<Longrightarrow>
   line = ''echo '' @ [DQ] @ t @ [DQ] @ '' > /commandListener/commands.txt'' \<Longrightarrow>
   sh_c line sb = Some (sh_write Truncate control_file (t @ [NL]) sb)"
  by (simp add: sh_c_def sh_parse_line_echo_truncate run_simple_def)

lemma sh_c_echo_append:
  "shell_safe t \<Longrightarrow> take 1 t \<noteq> ''-'' \<Longrightarrow>
   line = ''echo '' @ [DQ] @ t @ [DQ] @ '' >> /commandListener/commands.txt'' \<Longrightarrow>
   sh_c line sb = Some (sh_write Append control_file (t @ [NL]) sb)"
  by (simp add: sh_c_def sh_parse_line_echo_append run_simple_def)

text \<open>On the reference engine a running container always gets the exec created.\<close>

lemma exec_line_sim_execs:
  "c < length (containers (world st)) \<Longrightarrow> running (containers (world st) ! c) \<Longrightarrow>
   execs (world (snd (exec_line docker_sim c line st)))
     = execs (world st) @ [(c, sh_exec_options line)]"
  by (simp add: exec_line_def docker_sim_def sim_exec_def sim_exec_start_def sh_exec_options_def
      nth_append split: option.splits)

lemma exec_line_sim:
  "c < length (containers (world st)) \<Longrightarrow> running (containers (world st) ! c) \<Longrightarrow>
   sh_c line (containers (world st) ! c) = Some sb \<Longrightarrow>
   exec_line docker_sim c line st =
     (Inr (), st \<lparr> world := (world st) \<lparr> execs := execs (world st) @ [(c, sh_exec_options line)],
                                       containers := (containers (world st))[c := sb] \<rparr> \<rparr>)"
  by (simp add: exec_line_def docker_sim_def sim_exec_def sim_exec_start_def sh_exec_options_def
      nth_append)

lemma upsert_loop_concat:
  "upsert_loop files acc
     = acc @ concat (map (\<lambda>(f, c). ''upsert '' @ f @ '' '' @ c @ [NL]) files)"
  by (induction files acc rule: upsert_loop.induct) simp_all

text \<open>What a write leaves behind, and the three methods on a running container.\<close>

lemma sh_write_running [simp]: "running (sh_write opr path out sb) = running sb"
  by (simp add: sh_write_def)

lemma sh_write_truncate_fs [simp]: "fs (sh_write Truncate path out sb) path = Some out"
  by (simp add: sh_write_def)

lemma sh_write_append_fs [simp]:
  "fs (sh_write Append path out sb) path = Some (file_content sb path @ out)"
  by (simp add: sh_write_def)

lemma exec_echo_truncate_sim:
  assumes "live st c" and "shell_safe t" and "take 1 t \<noteq> ''-''"
    and "line = ''echo '' @ [DQ] @ t @ [DQ] @ '' > /commandListener/commands.txt''"
  shows "exec_line docker_sim c line st =
     (Inr (), st \<lparr> world := (world st) \<lparr> execs := execs (world st) @ [(c, sh_exec_options line)],
        containers := (containers (world st))
          [c := sh_write Truncate control_file (t @ [NL]) (the_sandbox st c)] \<rparr> \<rparr>)"
  using assms(1) sh_c_echo_truncate [OF assms(2,3,4), of "the_sandbox st c"]
  by (simp add: live_def the_sandbox_def exec_line_sim)

lemma exec_echo_append_sim:
  assumes "live st c" and "shell_safe t" and "take 1 t \<noteq> ''-''"
    and "line = ''echo '' @ [DQ] @ t @ [DQ] @ '' >> /commandListener/commands.txt''"
  shows "exec_line docker_sim c line st =
     (Inr (), st \<lparr> world := (world st) \<lparr> execs := execs (world st) @ [(c, sh_exec_options line)],
        containers := (containers (world st))
          [c := sh_write Append control_file (t @ [NL]) (the_sandbox st c)] \<rparr> \<rparr>)"
  using assms(1) sh_c_echo_append [OF assms(2,3,4), of "the_sandbox st c"]
  by (simp add: live_def the_sandbox_def exec_line_sim)

lemma shell_safe_append [simp]: "shell_safe (a @ b) = (shell_safe a \<and> shell_safe b)"
  by (simp add: shell_safe_def)

lemma shell_safe_upserts: "safe_entries entries \<Longrightarrow> shell_safe (spec_upserts entries)"
  by (induction entries)
    (auto simp: safe_entries_def spec_upserts_def spec_upsert_def shell_safe_def dq_special_def)

lemma upsert_loop_spec: "upsert_loop entries [] = spec_upserts entries"
  by (simp add: upsert_loop_concat spec_upserts_def spec_upsert_def)

lemma spec_upserts_no_dash: "take 1 (spec_upserts entries) \<noteq> ''-''"
  by (cases entries) (auto simp: spec_upserts_def spec_upsert_def)

lemma upsertFiles_sim:
  assumes "live st c" and "safe_entries entries"
  shows "upsertFiles docker_sim c entries st =
     (Inr (), st \<lparr> world := (world st) \<lparr>
        execs := execs (world st) @ [(c, sh_exec_options (upsertFiles_line entries))],
        containers := (containers (world st))
          [c := sh_write Truncate control_file (spec_upserts entries @ [NL]) (the_sandbox st c)] \<rparr> \<rparr>)"
  unfolding upsertFiles_def
  by (rule exec_echo_truncate_sim [OF assms(1) shell_safe_upserts [OF assms(2)] spec_upserts_no_dash])
    (simp add: upsertFiles_line_def upsert_loop_spec)

lemma startProgram_sim:
  assumes "live st c"
  shows "startProgram docker_sim c st =
     (Inr (), st \<lparr> world := (world st) \<lparr>
        execs := execs (world st) @ [(c, sh_exec_options startProgram_line)],
        containers := (containers (world st))
          [c := sh_write Truncate control_file (spec_run @ [NL]) (the_sandbox st c)] \<rparr> \<rparr>)"
proof -
  have safe: "shell_safe spec_run" and dash: "take 1 spec_run \<noteq> ''-''"
    by (simp_all add: spec_run_def shell_safe_def dq_special_def)
  show ?thesis
    unfolding startProgram_def
    by (rule exec_echo_truncate_sim [OF assms safe dash])
      (simp add: startProgram_line_def spec_run_def)
qed

lemma sendInput_sim:
  assumes "live st c" and "shell_safe text"
  shows "sendInput docker_sim c text st =
     (Inr (), st \<lparr> world := (world st) \<lparr>
        execs := execs (world st) @ [(c, sh_exec_options (sendInput_line text))],
        containers := (containers (world st))
          [c := sh_write Append control_file (spec_sendInput text @ [NL]) (the_sandbox st c)] \<rparr> \<rparr>)"
proof -
  have safe: "shell_safe (spec_sendInput text)"
    using assms(2) by (simp add: spec_sendInput_def shell_safe_def dq_special_def)
  have dash: "take 1 (spec_sendInput text) \<noteq> ''-''"
    by (simp add: spec_sendInput_def)
  show ?thesis
    unfolding sendInput_def
    by (rule exec_echo_append_sim [OF assms(1) safe dash])
      (simp add: sendInput_line_def spec_sendInput_def)
qed


lemma live_session: "live session_service 0"
  by (simp add: live_def session_service_def session_world_def)

lemma after_exec:
  assumes "live st c"
  shows "live (st \<lparr> world := (world st) \<lparr> execs := es,
            containers := (containers (world st))[c := sb] \<rparr> \<rparr>) c = running sb"
    and "the_sandbox (st \<lparr> world := (world st) \<lparr> execs := es,
            containers := (containers (world st))[c := sb] \<rparr> \<rparr>) c = sb"
  using assms by (simp_all add: live_def the_sandbox_def)

text \<open>The example states are states of the code: the fresh session is what session start returns.\<close>

lemma startPythonSession_example:
  "startPythonSession docker_sim example_service = (Inr ''s1'', fresh_service)"
  by (simp add: startPythonSession_def startInteractiveSession_def docker_sim_def sim_uuidv4_def
      sim_mkdirSync_def sim_createContainer_def sim_start_def example_service_def new_service_def
      example_world_def fresh_service_def fresh_world_def registerContainer_def env_or_def
      Let_def session_options_def)

lemma live_fresh: "live fresh_service 0"
  by (simp add: live_def fresh_service_def fresh_world_def)

lemma sh_parse_overwrite:
  "sh_parse_line (sendInput_line overwrite_text)
     = Some [\<lparr> argv = [''echo'', ''input x''], redirs = [(Truncate, control_file)] \<rparr>,
             \<lparr> argv = [''echo'', ''y''], redirs = [(Append, control_file)] \<rparr>]"
  by (simp add: sh_parse_line_def sendInput_line_def overwrite_text_def sh_lex.simps the_word_def
      flush_def unquoted_special_def dq_special_def control_file_def)

lemma sh_parse_inject:
  "sh_parse_line (sendInput_line inject_text)
     = Some [\<lparr> argv = [''echo'', ''input x''], redirs = [] \<rparr>,
             \<lparr> argv = [''echo'', ''run''], redirs = [(Append, control_file)] \<rparr>]"
  by (simp add: sh_parse_line_def sendInput_line_def inject_text_def sh_lex.simps the_word_def
      flush_def unquoted_special_def dq_special_def control_file_def)

text \<open>A text without a newline, ended by one, is one line.\<close>

lemma split_lines_line:
  "one_line r \<Longrightarrow> split_lines cur (r @ NL # rest) = (cur @ r) # split_lines [] rest"
  by (induction r arbitrary: cur) (simp_all add: one_line_def)

lemma one_line_input [simp]: "one_line (spec_sendInput t) = one_line t"
  by (simp add: one_line_def spec_sendInput_def)

section \<open>Delivering commands\<close>

lemma sh_parse_quote_entries:
  "sh_parse_line (upsertFiles_line quote_entries)
     = Some [\<lparr> argv = [''echo'', ''upsert main.py print(hi)'' @ [NL]],
               redirs = [(Truncate, control_file)] \<rparr>]"
  by (simp add: sh_parse_line_def upsertFiles_line_def quote_entries_def sh_lex.simps the_word_def
      flush_def unquoted_special_def dq_special_def control_file_def)

text \<open>
  C7, as the specification states it: for every mapping the records
  \<^verbatim>\<open>upsert <filename> <content>\<close> are delivered through a single shell invocation that
  overwrites the control file. The records go between the double quotes as they are, so a
  content with a double quote in it ends the quotation. For the mapping
  \<^verbatim>\<open>{main.py: print("hi")}\<close> the record is \<^verbatim>\<open>upsert main.py print("hi")\<close>; the invocation
  succeeds, and what it puts into the control file is \<^verbatim>\<open>upsert main.py print(hi)\<close>.
\<close>

theorem upsertFiles_quote_counterexample:
  "\<not> safe_entries quote_entries
   \<and> upsert_loop quote_entries []
       = ''upsert main.py print('' @ [DQ] @ ''hi'' @ [DQ] @ '')'' @ [NL]
   \<and> fst (upsertFiles docker_sim 0 quote_entries fresh_service) = Inr ()
   \<and> file_content (the_sandbox (snd (upsertFiles docker_sim 0 quote_entries fresh_service)) 0)
        control_file = ''upsert main.py print(hi)'' @ [NL, NL]"
proof -
  let ?sb = "sh_write Truncate control_file (''upsert main.py print(hi)'' @ [NL, NL])
               (the_sandbox fresh_service 0)"
  have c: "sh_c (upsertFiles_line quote_entries) (containers (world fresh_service) ! 0) = Some ?sb"
    by (simp add: sh_c_def sh_parse_quote_entries run_simple_def the_sandbox_def)
  have l: "0 < length (containers (world fresh_service))"
    "running (containers (world fresh_service) ! 0)"
    using live_fresh by (simp_all add: live_def)
  have u: "\<not> safe_entries quote_entries"
    by (simp add: safe_entries_def shell_safe_def quote_entries_def)
  have p: "upsert_loop quote_entries []
       = ''upsert main.py print('' @ [DQ] @ ''hi'' @ [DQ] @ '')'' @ [NL]"
    by (simp add: quote_entries_def)
  have f: "file_content ?sb control_file = ''upsert main.py print(hi)'' @ [NL, NL]"
    by (simp add: file_content_def)
  have r: "upsertFiles docker_sim 0 quote_entries fresh_service =
     (Inr (), fresh_service \<lparr> world := (world fresh_service) \<lparr>
        execs := execs (world fresh_service) @ [(0, sh_exec_options (upsertFiles_line quote_entries))],
        containers := (containers (world fresh_service))[0 := ?sb] \<rparr> \<rparr>)"
    by (simp add: upsertFiles_def exec_line_sim [OF l c])
  have p3: "fst (upsertFiles docker_sim 0 quote_entries fresh_service) = Inr ()"
    by (simp add: r)
  have p4: "file_content (the_sandbox (snd (upsertFiles docker_sim 0 quote_entries fresh_service)) 0)
        control_file = ''upsert main.py print(hi)'' @ [NL, NL]"
    using live_fresh f by (simp add: r after_exec)
  show ?thesis
    by (intro conjI u p p3 p4)
qed

text \<open>
  C7, amended: for every mapping of filenames to contents passed to \<^verbatim>\<open>upsertFiles\<close>, the
  encoded command is one record \<^verbatim>\<open>upsert <filename> <content>\<close> per file, the records of
  several files following each other in the mapping's entry order, each ended by a
  newline, and all of them are handed over in a single shell invocation,
  \<^verbatim>\<open>sh -c 'echo "<records>" > /commandListener/commands.txt'\<close>; for every mapping whose
  filenames and contents have none of the characters double quote, backslash, dollar sign
  and backquote, that invocation overwrites the control file with exactly those records
  (and the newline of \<^verbatim>\<open>echo\<close>), whatever the file held before.
\<close>

theorem upsertFiles_encodes:
  "upsert_loop entries [] = concat (map (\<lambda>(filename, content). spec_upsert filename content @ [NL]) entries)
   \<and> (live st c \<longrightarrow>
        execs (world (snd (upsertFiles docker_sim c entries st)))
          = execs (world st) @
            [(c, \<lparr> Cmd = [''sh'', ''-c'',
                          ''echo '' @ [DQ] @ spec_upserts entries @ [DQ]
                            @ '' > /commandListener/commands.txt''],
                   AttachStdin = True, AttachStdout = True, AttachStderr = True, Tty = True \<rparr>)])
   \<and> (live st c \<and> safe_entries entries \<longrightarrow>
        fst (upsertFiles docker_sim c entries st) = Inr ()
        \<and> fs (the_sandbox (snd (upsertFiles docker_sim c entries st)) c) control_file
            = Some (spec_upserts entries @ [NL]))"
proof (intro conjI impI)
  show "upsert_loop entries [] = concat (map (\<lambda>(filename, content). spec_upsert filename content @ [NL]) entries)"
    using upsert_loop_spec [of entries] by (simp add: spec_upserts_def)
next
  assume "live st c"
  then show "execs (world (snd (upsertFiles docker_sim c entries st)))
          = execs (world st) @
            [(c, \<lparr> Cmd = [''sh'', ''-c'',
                          ''echo '' @ [DQ] @ spec_upserts entries @ [DQ]
                            @ '' > /commandListener/commands.txt''],
                   AttachStdin = True, AttachStdout = True, AttachStderr = True, Tty = True \<rparr>)]"
    by (simp add: upsertFiles_def live_def exec_line_sim_execs sh_exec_options_def
        upsertFiles_line_def upsert_loop_spec)
next
  assume a: "live st c \<and> safe_entries entries"
  then show "fst (upsertFiles docker_sim c entries st) = Inr ()"
    by (simp add: upsertFiles_sim)
next
  assume a: "live st c \<and> safe_entries entries"
  then show "fs (the_sandbox (snd (upsertFiles docker_sim c entries st)) c) control_file
            = Some (spec_upserts entries @ [NL])"
    by (simp add: upsertFiles_sim after_exec)
qed

theorem upsertFiles_encodes_witness:
  "live session_service 0 \<and> safe_entries [(''a.txt'', ''hi''), (''b.txt'', ''yo'')]
   \<and> upsert_loop [(''a.txt'', ''hi''), (''b.txt'', ''yo'')] []
       = ''upsert a.txt hi'' @ [NL] @ ''upsert b.txt yo'' @ [NL]
   \<and> map fst (execs (world (snd (upsertFiles docker_sim 0 [(''a.txt'', ''hi''), (''b.txt'', ''yo'')]
         session_service)))) = [0]
   \<and> fst (upsertFiles docker_sim 0 [(''a.txt'', ''hi''), (''b.txt'', ''yo'')] session_service) = Inr ()
   \<and> fs (the_sandbox session_service 0) control_file = Some (''run'' @ [NL])
   \<and> fs (the_sandbox (snd (upsertFiles docker_sim 0 [(''a.txt'', ''hi''), (''b.txt'', ''yo'')]
         session_service)) 0) control_file
       = Some (''upsert a.txt hi'' @ [NL] @ ''upsert b.txt yo'' @ [NL] @ [NL])"
proof -
  have s: "safe_entries [(''a.txt'', ''hi''), (''b.txt'', ''yo'')]"
    by (simp add: safe_entries_def shell_safe_def dq_special_def)
  have e: "execs (world session_service) = []"
    "fs (the_sandbox session_service 0) control_file = Some (''run'' @ [NL])"
    by (simp_all add: session_service_def session_world_def the_sandbox_def)
  from upsertFiles_encodes [of "[(''a.txt'', ''hi''), (''b.txt'', ''yo'')]" session_service 0]
    live_session s e
  show ?thesis by (simp add: spec_upserts_def spec_upsert_def)
qed

text \<open>
  C10: calling \<^verbatim>\<open>upsertFiles\<close> with an empty mapping is not a no-op. The command string
  is empty, one shell invocation is still issued, \<^verbatim>\<open>echo "" > /commandListener/commands.txt\<close>,
  and it overwrites the control file: afterwards the file holds the newline of \<^verbatim>\<open>echo\<close>
  and nothing of what was written before.
\<close>

theorem upsertFiles_empty:
  "upsert_loop [] [] = []
   \<and> (live st c \<longrightarrow>
        fst (upsertFiles docker_sim c [] st) = Inr ()
        \<and> execs (world (snd (upsertFiles docker_sim c [] st)))
            = execs (world st) @
              [(c, \<lparr> Cmd = [''sh'', ''-c'', ''echo '' @ [DQ, DQ] @ '' > /commandListener/commands.txt''],
                     AttachStdin = True, AttachStdout = True, AttachStderr = True, Tty = True \<rparr>)]
        \<and> file_content (the_sandbox (snd (upsertFiles docker_sim c [] st)) c) control_file = [NL])"
proof (intro conjI impI)
  show "upsert_loop [] [] = []" by simp
next
  assume l: "live st c"
  have s: "safe_entries []" by (simp add: safe_entries_def)
  show "fst (upsertFiles docker_sim c [] st) = Inr ()"
    by (simp add: upsertFiles_sim [OF l s])
  show "execs (world (snd (upsertFiles docker_sim c [] st)))
            = execs (world st) @
              [(c, \<lparr> Cmd = [''sh'', ''-c'', ''echo '' @ [DQ, DQ] @ '' > /commandListener/commands.txt''],
                     AttachStdin = True, AttachStdout = True, AttachStderr = True, Tty = True \<rparr>)]"
    by (simp add: upsertFiles_sim [OF l s] sh_exec_options_def upsertFiles_line_def)
  show "file_content (the_sandbox (snd (upsertFiles docker_sim c [] st)) c) control_file = [NL]"
    using l by (simp add: upsertFiles_sim [OF l s] after_exec spec_upserts_def file_content_def)
qed

theorem upsertFiles_empty_witness:
  "live session_service 0
   \<and> file_content (the_sandbox session_service 0) control_file = ''run'' @ [NL]
   \<and> fst (upsertFiles docker_sim 0 [] session_service) = Inr ()
   \<and> length (execs (world (snd (upsertFiles docker_sim 0 [] session_service)))) = 1
   \<and> file_content (the_sandbox (snd (upsertFiles docker_sim 0 [] session_service)) 0) control_file = [NL]"
proof -
  have e: "execs (world session_service) = []"
    "file_content (the_sandbox session_service 0) control_file = ''run'' @ [NL]"
    by (simp_all add: session_service_def session_world_def the_sandbox_def file_content_def)
  from upsertFiles_empty [of session_service 0] live_session e
  show ?thesis by simp
qed

text \<open>
  C8, as the specification states it: for every input text, sending input appends
  exactly one record \<^verbatim>\<open>input <text>\<close> and leaves every record written before unchanged.
  The text goes between the double quotes as it is, so a text with a double quote in it
  ends the quotation. In the session whose control file holds \<^verbatim>\<open>run\<close>, sending
  \<^verbatim>\<open>x" > /commandListener/commands.txt; echo "y\<close> runs two commands, the first of which
  overwrites the file: \<^verbatim>\<open>run\<close> is gone, and what stands there is not
  \<^verbatim>\<open>input <text>\<close>.
\<close>

theorem sendInput_overwrite_counterexample:
  "file_content (the_sandbox session_service 0) control_file = ''run'' @ [NL]
   \<and> fst (sendInput docker_sim 0 overwrite_text session_service) = Inr ()
   \<and> file_content (the_sandbox (snd (sendInput docker_sim 0 overwrite_text session_service)) 0)
        control_file = ''input x'' @ [NL] @ ''y'' @ [NL]"
proof -
  let ?sb = "sh_write Append control_file (''y'' @ [NL])
               (sh_write Truncate control_file (''input x'' @ [NL]) (the_sandbox session_service 0))"
  have c: "sh_c (sendInput_line overwrite_text) (containers (world session_service) ! 0) = Some ?sb"
    by (simp add: sh_c_def sh_parse_overwrite run_simple_def the_sandbox_def)
  have l: "0 < length (containers (world session_service))"
    "running (containers (world session_service) ! 0)"
    using live_session by (simp_all add: live_def)
  have "file_content (the_sandbox session_service 0) control_file = ''run'' @ [NL]"
    by (simp add: session_service_def session_world_def the_sandbox_def file_content_def)
  moreover have "file_content ?sb control_file = ''input x'' @ [NL] @ ''y'' @ [NL]"
    by (simp add: file_content_def)
  ultimately show ?thesis
    using live_session by (simp add: sendInput_def exec_line_sim [OF l c] after_exec)
qed

text \<open>
  C8, amended: for every input text that has none of the characters double quote,
  backslash, dollar sign and backquote, sending input to a running session appends
  exactly \<^verbatim>\<open>input <text>\<close> and a newline to the control file (input \<^verbatim>\<open>42\<close> appends exactly
  \<^verbatim>\<open>input 42\<close>) and leaves everything written to the file before unchanged; what is
  appended is one line when the text has no newline.
\<close>

theorem sendInput_appends:
  "live st c \<and> shell_safe text \<longrightarrow>
     fst (sendInput docker_sim c text st) = Inr ()
     \<and> file_content (the_sandbox (snd (sendInput docker_sim c text st)) c) control_file
         = file_content (the_sandbox st c) control_file @ spec_sendInput text @ [NL]
     \<and> (one_line text \<longrightarrow> split_lines [] (spec_sendInput text @ [NL]) = [spec_sendInput text])"
proof (intro impI conjI)
  assume a: "live st c \<and> shell_safe text"
  then have l: "live st c" and s: "shell_safe text" by simp_all
  note sim = sendInput_sim [OF l s]
  show "fst (sendInput docker_sim c text st) = Inr ()"
    by (simp add: sim)
  show "file_content (the_sandbox (snd (sendInput docker_sim c text st)) c) control_file
         = file_content (the_sandbox st c) control_file @ spec_sendInput text @ [NL]"
    using l by (simp add: sim after_exec file_content_def)
  assume "one_line text"
  then show "split_lines [] (spec_sendInput text @ [NL]) = [spec_sendInput text]"
    by (simp add: split_lines_line)
qed

theorem sendInput_appends_witness:
  "live session_service 0 \<and> shell_safe ''42'' \<and> one_line ''42''
   \<and> file_content (the_sandbox session_service 0) control_file = ''run'' @ [NL]
   \<and> fst (sendInput docker_sim 0 ''42'' session_service) = Inr ()
   \<and> file_content (the_sandbox (snd (sendInput docker_sim 0 ''42'' session_service)) 0) control_file
       = ''run'' @ [NL] @ ''input 42'' @ [NL]
   \<and> split_lines [] (''input 42'' @ [NL]) = [''input 42'']"
proof -
  have s: "shell_safe ''42''" "one_line ''42''"
    by (simp_all add: shell_safe_def one_line_def dq_special_def)
  have e: "file_content (the_sandbox session_service 0) control_file = ''run'' @ [NL]"
    by (simp add: session_service_def session_world_def the_sandbox_def file_content_def)
  from sendInput_appends [of session_service 0 "''42''"] live_session s e
  show ?thesis by (simp add: spec_sendInput_def)
qed

section \<open>Quoting\<close>

text \<open>
  C2, as the specification states it: the encoder neutralizes the characters that would
  break out of the shell quoting, a payload with such a character never alters the shell
  command structure, and content that cannot be encoded fails before any command reaches
  the orchestrator. The methods put the payload between the double quotes as it is and
  check nothing. The input text \<^verbatim>\<open>x"; echo "run\<close> gives the line
  \<^verbatim>\<open>echo "input x"; echo "run" >> /commandListener/commands.txt\<close>: two commands instead of
  one. The exec is created and started with that line, nothing fails, and the control
  file receives \<^verbatim>\<open>run\<close>, a record the client never sent.
\<close>

theorem sendInput_injection_counterexample:
  "\<not> shell_safe inject_text
   \<and> sh_parse_line (sendInput_line inject_text)
       = Some [\<lparr> argv = [''echo'', ''input x''], redirs = [] \<rparr>,
               \<lparr> argv = [''echo'', ''run''], redirs = [(Append, control_file)] \<rparr>]
   \<and> sendInput_line inject_text
       = ''echo '' @ [DQ] @ ''input x'' @ [DQ] @ ''; echo '' @ [DQ] @ ''run'' @ [DQ]
           @ '' >> /commandListener/commands.txt''
   \<and> fst (sendInput docker_sim 0 inject_text fresh_service) = Inr ()
   \<and> execs (world (snd (sendInput docker_sim 0 inject_text fresh_service)))
       = [(0, sh_exec_options (sendInput_line inject_text))]
   \<and> file_content (the_sandbox (snd (sendInput docker_sim 0 inject_text fresh_service)) 0)
        control_file = ''run'' @ [NL]"
proof -
  let ?sb = "sh_write Append control_file (''run'' @ [NL]) (the_sandbox fresh_service 0)"
  have c: "sh_c (sendInput_line inject_text) (containers (world fresh_service) ! 0) = Some ?sb"
    by (simp add: sh_c_def sh_parse_inject run_simple_def the_sandbox_def)
  have l: "0 < length (containers (world fresh_service))"
    "running (containers (world fresh_service) ! 0)"
    using live_fresh by (simp_all add: live_def)
  have u: "\<not> shell_safe inject_text"
    by (simp add: shell_safe_def inject_text_def)
  have ln: "sendInput_line inject_text
       = ''echo '' @ [DQ] @ ''input x'' @ [DQ] @ ''; echo '' @ [DQ] @ ''run'' @ [DQ]
           @ '' >> /commandListener/commands.txt''"
    by (simp add: sendInput_line_def inject_text_def)
  have e: "execs (world fresh_service) = []"
    by (simp add: fresh_service_def fresh_world_def)
  have f: "file_content ?sb control_file = ''run'' @ [NL]"
    by (simp add: file_content_def the_sandbox_def fresh_service_def fresh_world_def)
  have r: "sendInput docker_sim 0 inject_text fresh_service =
     (Inr (), fresh_service \<lparr> world := (world fresh_service) \<lparr>
        execs := execs (world fresh_service) @ [(0, sh_exec_options (sendInput_line inject_text))],
        containers := (containers (world fresh_service))[0 := ?sb] \<rparr> \<rparr>)"
    by (simp add: sendInput_def exec_line_sim [OF l c])
  have p4: "fst (sendInput docker_sim 0 inject_text fresh_service) = Inr ()"
    by (simp add: r)
  have p5: "execs (world (snd (sendInput docker_sim 0 inject_text fresh_service)))
       = [(0, sh_exec_options (sendInput_line inject_text))]"
    by (simp add: r e)
  have p6: "file_content (the_sandbox (snd (sendInput docker_sim 0 inject_text fresh_service)) 0)
        control_file = ''run'' @ [NL]"
    using live_fresh f by (simp add: r after_exec)
  show ?thesis
    by (intro conjI u sh_parse_inject ln p4 p5 p6)
qed

text \<open>
  C2, amended: for every filename, file content and input text that has none of the
  characters double quote, backslash, dollar sign and backquote, the command string
  handed to the sandbox is exactly one \<^verbatim>\<open>echo\<close> command whose single quoted argument is
  the record text (\<^verbatim>\<open>input <text>\<close>, or the upsert records), redirected into the control
  file: such a payload does not alter the shell command structure.
\<close>

theorem safe_payload_keeps_structure:
  "(shell_safe text \<longrightarrow>
      sh_parse_line (sendInput_line text)
        = Some [\<lparr> argv = [''echo'', spec_sendInput text], redirs = [(Append, control_file)] \<rparr>])
   \<and> (safe_entries entries \<longrightarrow>
        sh_parse_line (upsertFiles_line entries)
          = Some [\<lparr> argv = [''echo'', spec_upserts entries], redirs = [(Truncate, control_file)] \<rparr>])"
proof (intro conjI impI)
  assume s: "shell_safe text"
  then have "shell_safe (spec_sendInput text)"
    by (simp add: spec_sendInput_def shell_safe_def dq_special_def)
  then show "sh_parse_line (sendInput_line text)
        = Some [\<lparr> argv = [''echo'', spec_sendInput text], redirs = [(Append, control_file)] \<rparr>]"
    by (rule sh_parse_line_echo_append) (simp add: sendInput_line_def spec_sendInput_def)
next
  assume "safe_entries entries"
  then have "shell_safe (spec_upserts entries)"
    by (rule shell_safe_upserts)
  then show "sh_parse_line (upsertFiles_line entries)
          = Some [\<lparr> argv = [''echo'', spec_upserts entries], redirs = [(Truncate, control_file)] \<rparr>]"
    by (rule sh_parse_line_echo_truncate) (simp add: upsertFiles_line_def upsert_loop_spec)
qed

theorem safe_payload_keeps_structure_witness:
  "shell_safe ''42'' \<and> safe_entries [(''a.txt'', ''hi'')]
   \<and> sh_parse_line (sendInput_line ''42'')
       = Some [\<lparr> argv = [''echo'', ''input 42''], redirs = [(Append, control_file)] \<rparr>]
   \<and> sh_parse_line (upsertFiles_line [(''a.txt'', ''hi'')])
       = Some [\<lparr> argv = [''echo'', ''upsert a.txt hi'' @ [NL]], redirs = [(Truncate, control_file)] \<rparr>]"
proof -
  have s: "shell_safe ''42''" "safe_entries [(''a.txt'', ''hi'')]"
    by (simp_all add: shell_safe_def safe_entries_def dq_special_def)
  from safe_payload_keeps_structure [of "''42''" "[(''a.txt'', ''hi'')]"] s
  show ?thesis
    by (simp add: spec_sendInput_def spec_upserts_def spec_upsert_def)
qed

section \<open>Order of the commands\<close>










section \<open>What a delivery waits for\<close>

lemma exec_line_awaits:
  assumes "fst (exec_line out c line st) = Inr ()"
  shows "\<exists>ex w1. container_exec out c (sh_exec_options line) (world st) = (Inr ex, w1)
           \<and> exec_start out ex False w1 = (Inr (), world (snd (exec_line out c line st)))"
proof -
  obtain r1 w1 where e1: "container_exec out c (sh_exec_options line) (world st) = (r1, w1)"
    by (cases "container_exec out c (sh_exec_options line) (world st)")
  show ?thesis
  proof (cases r1)
    case (Inl e)
    with assms e1 show ?thesis
      by (simp add: exec_line_def)
  next
    case (Inr ex)
    obtain r2 w2 where e2: "exec_start out ex False w1 = (r2, w2)"
      by (cases "exec_start out ex False w1")
    show ?thesis
    proof (cases r2)
      case (Inl e)
      with assms e1 e2 \<open>r1 = Inr ex\<close> show ?thesis
        by (simp add: exec_line_def)
    next
      case (Inr u)
      with e1 e2 \<open>r1 = Inr ex\<close> show ?thesis
        by (simp add: exec_line_def)
    qed
  qed
qed

lemma exec_line_sim_effect:
  assumes "live st c" and "fst (exec_line docker_sim c line st) = Inr ()"
  shows "sh_c line (the_sandbox st c) = Some (the_sandbox (snd (exec_line docker_sim c line st)) c)"
proof (cases "sh_c line (the_sandbox st c)")
  case None
  with assms show ?thesis
    by (simp add: exec_line_def docker_sim_def sim_exec_def sim_exec_start_def sh_exec_options_def
        live_def the_sandbox_def nth_append)
next
  case (Some sb)
  with assms(1) have "sh_c line (containers (world st) ! c) = Some sb"
    "c < length (containers (world st))" "running (containers (world st) ! c)"
    by (simp_all add: live_def the_sandbox_def)
  from exec_line_sim [OF this(2,3,1)] Some assms(1) show ?thesis
    by (simp add: after_exec)
qed

lemma live_queued:
  "live st c \<Longrightarrow>
   exec_line docker_queued c line st =
     (Inr (), st \<lparr> world := (world st) \<lparr> execs := execs (world st) @ [(c, sh_exec_options line)],
                                       pending := pending (world st) @ [length (execs (world st))] \<rparr> \<rparr>)"
  by (simp add: exec_line_def docker_queued_def docker_sim_def sim_exec_def queued_exec_start_def
      live_def)

text \<open>
  C9, as the specification states it: every command-delivery operation waits for its
  one-shot command to complete, not merely to be submitted, before it returns. The three
  methods await the promise of \<^verbatim>\<open>exec.start({ Detach: false })\<close> and return; they do
  not read the exec's stream, wait for its end or ask for the exec's state. On the engine
  that resolves that promise once the exec has been started, \<^verbatim>\<open>sendInput\<close> with \<^verbatim>\<open>42\<close>
  returns successfully while the command is still pending and the control file holds
  what it held, \<^verbatim>\<open>run\<close>; the record arrives when the engine runs the command, after
  the operation has returned.
\<close>

theorem sendInput_returns_early_counterexample:
  "file_content (the_sandbox session_service 0) control_file = ''run'' @ [NL]
   \<and> fst (sendInput docker_queued 0 ''42'' session_service) = Inr ()
   \<and> pending (world (snd (sendInput docker_queued 0 ''42'' session_service))) = [0]
   \<and> file_content (the_sandbox (snd (sendInput docker_queued 0 ''42'' session_service)) 0)
        control_file = ''run'' @ [NL]
   \<and> fst (run_pending (world (snd (sendInput docker_queued 0 ''42'' session_service)))) = Inr ()
   \<and> file_content
        (containers (snd (run_pending (world (snd (sendInput docker_queued 0 ''42''
            session_service))))) ! 0) control_file
       = ''run'' @ [NL] @ ''input 42'' @ [NL]"
proof -
  let ?line = "sendInput_line ''42''"
  let ?w = "(world session_service) \<lparr> execs := execs (world session_service) @ [(0, sh_exec_options ?line)],
              pending := pending (world session_service) @ [length (execs (world session_service))] \<rparr>"
  have r: "sendInput docker_queued 0 ''42'' session_service = (Inr (), session_service \<lparr> world := ?w \<rparr>)"
    by (simp add: sendInput_def live_queued [OF live_session])
  have e: "execs (world session_service) = []" "pending (world session_service) = []"
    "file_content (the_sandbox session_service 0) control_file = ''run'' @ [NL]"
    by (simp_all add: session_service_def session_world_def the_sandbox_def file_content_def)
  have s: "shell_safe (spec_sendInput ''42'')" "take 1 (spec_sendInput ''42'') \<noteq> ''-''"
    by (simp_all add: spec_sendInput_def shell_safe_def dq_special_def)
  have c: "sh_c ?line (the_sandbox session_service 0)
             = Some (sh_write Append control_file (spec_sendInput ''42'' @ [NL])
                       (the_sandbox session_service 0))"
    by (rule sh_c_echo_append [OF s]) (simp add: sendInput_line_def spec_sendInput_def)
  have l: "0 < length (containers (world session_service))"
    using live_session by (simp add: live_def)
  have p2: "fst (sendInput docker_queued 0 ''42'' session_service) = Inr ()"
    by (simp add: r)
  have p3: "pending (world (snd (sendInput docker_queued 0 ''42'' session_service))) = [0]"
    by (simp add: r e)
  have p4: "file_content (the_sandbox (snd (sendInput docker_queued 0 ''42'' session_service)) 0)
        control_file = ''run'' @ [NL]"
    using e(3) by (simp add: r the_sandbox_def)
  have run: "run_pending ?w
      = (Inr (), ?w \<lparr> pending := [],
           containers := (containers (world session_service))
             [0 := sh_write Append control_file (spec_sendInput ''42'' @ [NL])
                     (the_sandbox session_service 0)] \<rparr>)"
    using c l
    by (simp add: run_pending_def sim_exec_start_def e sh_exec_options_def the_sandbox_def)
  have p5: "fst (run_pending (world (snd (sendInput docker_queued 0 ''42'' session_service)))) = Inr ()"
    by (simp add: r run)
  have p6: "file_content
        (containers (snd (run_pending (world (snd (sendInput docker_queued 0 ''42''
            session_service))))) ! 0) control_file
       = ''run'' @ [NL] @ ''input 42'' @ [NL]"
    using l e(3) by (simp add: r run file_content_def spec_sendInput_def the_sandbox_def)
  show ?thesis
    by (intro conjI e(3) p2 p3 p4 p5 p6)
qed

text \<open>
  C9, amended: every command-delivery operation (program start, file upsert, input send)
  creates its one-shot exec and waits for the promise of \<^verbatim>\<open>exec.start({ Detach: false })\<close>
  before it returns to its caller, and it returns successfully only when both calls
  succeeded, with the state the engine was in when that promise resolved; so the next
  command of the session is handed to the engine only after the promise of the previous
  one has resolved. It waits for nothing else: the command has finished inside the
  sandbox on return when the engine resolves the promise at completion, as the reference
  engine does, where a successful return means the command's effect is in the sandbox.
\<close>

theorem delivery_awaits_exec_start:
  "(fst (startProgram out c st) = Inr () \<longrightarrow>
      (\<exists>ex w1. container_exec out c (sh_exec_options startProgram_line) (world st) = (Inr ex, w1)
         \<and> exec_start out ex False w1 = (Inr (), world (snd (startProgram out c st)))))
   \<and> (fst (upsertFiles out c entries st) = Inr () \<longrightarrow>
        (\<exists>ex w1. container_exec out c (sh_exec_options (upsertFiles_line entries)) (world st) = (Inr ex, w1)
           \<and> exec_start out ex False w1 = (Inr (), world (snd (upsertFiles out c entries st)))))
   \<and> (fst (sendInput out c input st) = Inr () \<longrightarrow>
        (\<exists>ex w1. container_exec out c (sh_exec_options (sendInput_line input)) (world st) = (Inr ex, w1)
           \<and> exec_start out ex False w1 = (Inr (), world (snd (sendInput out c input st)))))
   \<and> (live st' c' \<and> fst (startProgram docker_sim c' st') = Inr () \<longrightarrow>
        sh_c startProgram_line (the_sandbox st' c')
          = Some (the_sandbox (snd (startProgram docker_sim c' st')) c'))
   \<and> (live st' c' \<and> fst (upsertFiles docker_sim c' entries st') = Inr () \<longrightarrow>
        sh_c (upsertFiles_line entries) (the_sandbox st' c')
          = Some (the_sandbox (snd (upsertFiles docker_sim c' entries st')) c'))
   \<and> (live st' c' \<and> fst (sendInput docker_sim c' input st') = Inr () \<longrightarrow>
        sh_c (sendInput_line input) (the_sandbox st' c')
          = Some (the_sandbox (snd (sendInput docker_sim c' input st')) c'))"
  unfolding startProgram_def upsertFiles_def sendInput_def
  by (intro conjI impI exec_line_awaits) (simp_all add: exec_line_sim_effect)

theorem delivery_awaits_exec_start_witness:
  "live session_service 0
   \<and> fst (startProgram docker_sim 0 session_service) = Inr ()
   \<and> fst (upsertFiles docker_sim 0 [(''a.txt'', ''hi'')] session_service) = Inr ()
   \<and> fst (sendInput docker_sim 0 ''42'' session_service) = Inr ()
   \<and> (\<exists>ex w1. container_exec docker_sim 0 (sh_exec_options (sendInput_line ''42''))
                  (world session_service) = (Inr ex, w1)
         \<and> exec_start docker_sim ex False w1
             = (Inr (), world (snd (sendInput docker_sim 0 ''42'' session_service))))
   \<and> sh_c startProgram_line (the_sandbox session_service 0)
       = Some (the_sandbox (snd (startProgram docker_sim 0 session_service)) 0)
   \<and> sh_c (upsertFiles_line [(''a.txt'', ''hi'')]) (the_sandbox session_service 0)
       = Some (the_sandbox (snd (upsertFiles docker_sim 0 [(''a.txt'', ''hi'')] session_service)) 0)
   \<and> sh_c (sendInput_line ''42'') (the_sandbox session_service 0)
       = Some (the_sandbox (snd (sendInput docker_sim 0 ''42'' session_service)) 0)"
proof -
  have s: "safe_entries [(''a.txt'', ''hi'')]" "shell_safe ''42''"
    by (simp_all add: safe_entries_def shell_safe_def dq_special_def)
  have h1: "fst (startProgram docker_sim 0 session_service) = Inr ()"
    by (simp add: startProgram_sim [OF live_session])
  have h2: "fst (upsertFiles docker_sim 0 [(''a.txt'', ''hi'')] session_service) = Inr ()"
    by (simp add: upsertFiles_sim [OF live_session s(1)])
  have h3: "fst (sendInput docker_sim 0 ''42'' session_service) = Inr ()"
    by (simp add: sendInput_sim [OF live_session s(2)])
  from delivery_awaits_exec_start
    [of docker_sim 0 session_service "[(''a.txt'', ''hi'')]" "''42''" session_service 0]
    live_session h1 h2 h3
  show ?thesis by simp
qed

end
